theory Spec2Isabelle
  imports Complex_Main "HOL-Library.Word"
begin

section \<open>Machine types and external types\<close>

text \<open>
  \<open>GLuint\<close>, \<open>GLint\<close>, \<open>GLsizei\<close>, \<open>int\<close> and \<open>unsigned int\<close> are 32 bits wide. A value
  of any of them is represented by its bit pattern, a \<open>32 word\<close>; a \<open>static_cast\<close>
  between two of them keeps the bit pattern, so it is the identity here. The sentinel
  \<open>-1\<close> of the location variables is the word \<open>- 1\<close>.
\<close>

type_synonym GLuint = "32 word"
type_synonym GLint = "32 word"
type_synonym GLsizei = "32 word"
type_synonym c_int = "32 word"
type_synonym c_uint = "32 word"
type_synonym size_t = "64 word"

text \<open>
  A \<open>std::chrono::system_clock::time_point\<close> is a count of ticks of the clock, whose
  length the implementation chooses; the clock is read by the caller of the model and
  passed in as \<open>now\<close>.
\<close>

type_synonym time_point = int

text \<open>Addresses of \<open>GPUGeometry\<close> objects held by the caller.\<close>

type_synonym addr = nat

text \<open>
  The scalar type \<open>float\<close> is the type variable \<open>'f\<close> and \<open>glm::mat4\<close> is the type
  variable \<open>'m\<close>. Their operations are those of the syntactic classes \<open>zero\<close>, \<open>one\<close>,
  \<open>times\<close>, \<open>uminus\<close> and \<open>inverse\<close>, which carry no algebraic law: \<open>1\<close> of type \<open>'m\<close>
  is \<open>glm::mat4{1.0f}\<close>, \<open>*\<close> is \<open>operator*\<close> and \<open>inverse\<close> is \<open>glm::inverse\<close>. Whatever a
  theorem needs of the arithmetic is a hypothesis of that theorem.
\<close>

datatype 'f vec3 = Vec3 (vec3_x: 'f) (vec3_y: 'f) (vec3_z: 'f)

section \<open>Data of \<open>asr.h\<close>\<close>

datatype GeometryType =
  Points | Lines | LineLoop | LineStrip | Triangles | TriangleFan | TriangleStrip

record 'f Vertex =
  vertex_x :: 'f
  vertex_y :: 'f
  vertex_z :: 'f
  vertex_r :: 'f
  vertex_g :: 'f
  vertex_b :: 'f
  vertex_a :: 'f

record GPUGeometry =
  type :: GeometryType
  vertex_count :: c_uint
  vertex_array_object :: c_int
  vertex_buffer_object :: c_int
  index_buffer_object :: c_int

datatype MatrixMode = Model | View | Projection

section \<open>The graphics device\<close>

text \<open>
  OpenGL is outside the repository. The device is the list of the calls made to it, in
  the order they are made; the constants of the GL header are constructors.
\<close>

datatype GLcap = GL_PROGRAM_POINT_SIZE | GL_CULL_FACE | GL_DEPTH_TEST

datatype GLclear_bit = GL_COLOR_BUFFER_BIT | GL_DEPTH_BUFFER_BIT

datatype GLprimitive =
  GL_POINTS | GL_LINES | GL_LINE_LOOP | GL_LINE_STRIP
  | GL_TRIANGLES | GL_TRIANGLE_FAN | GL_TRIANGLE_STRIP

datatype GLtarget = GL_ARRAY_BUFFER | GL_ELEMENT_ARRAY_BUFFER

datatype GLconst = GL_CCW | GL_BACK | GL_LESS | GL_STATIC_DRAW | GL_FLOAT | GL_UNSIGNED_INT

datatype ('f, 'm) gl_call =
  GlClearColor 'f 'f 'f 'f
  | GlViewport GLint GLint GLsizei GLsizei
  | GlEnable GLcap
  | GlDisable GLcap
  | GlClear "GLclear_bit list"
  | GlFrontFace GLconst
  | GlCullFace GLconst
  | GlDepthFunc GLconst
  | GlLineWidth 'f
  | GlUseProgram GLuint
  | GlDeleteProgram GLuint
  | GlUniform1f GLint 'f
  | GlUniformMatrix4fv GLint GLsizei bool 'm
  | GlDrawElements GLprimitive GLsizei GLconst
  | GlGenVertexArrays GLuint
  | GlBindVertexArray GLuint
  | GlDeleteVertexArrays GLuint
  | GlGenBuffers GLuint
  | GlBindBuffer GLtarget GLuint
  | GlDeleteBuffers GLuint
  | GlBufferDataVertices GLtarget size_t "'f Vertex list" GLconst
  | GlBufferDataIndices GLtarget size_t "c_uint list" GLconst
  | GlEnableVertexAttribArray GLuint
  | GlVertexAttribPointer GLuint GLint GLconst bool GLsizei size_t

text \<open>
  The functions of glm that \<open>asr.h\<close> calls by name, the conversion
  \<open>static_cast<float>\<close> of an \<open>int\<close>, and the names the device hands out in
  \<open>glGenVertexArrays\<close> and \<open>glGenBuffers\<close> (it chooses them, knowing the calls made so
  far) are parameters of the model. So are the two steps that turn a difference of
  clock readings into the value of the time uniform:
  \<open>duration_cast_milliseconds\<close> is \<open>std::chrono::duration_cast<std::chrono::milliseconds>\<close>
  followed by \<open>count()\<close>, from a number of ticks to a number of milliseconds, and
  \<open>seconds_of_milliseconds\<close> is the conversion of that count to \<open>double\<close>, the division
  by \<open>1000.0\<close> in \<open>double\<close> and the narrowing of the quotient to the \<open>float\<close> that
  \<open>glUniform1f\<close> takes.
\<close>

record ('f, 'm) extern =
  glm_translate :: "'m \<Rightarrow> 'f vec3 \<Rightarrow> 'm"
  glm_rotate :: "'m \<Rightarrow> 'f \<Rightarrow> 'f vec3 \<Rightarrow> 'm"
  glm_scale :: "'m \<Rightarrow> 'f vec3 \<Rightarrow> 'm"
  glm_lookAt :: "'f vec3 \<Rightarrow> 'f vec3 \<Rightarrow> 'f vec3 \<Rightarrow> 'm"
  glm_ortho :: "'f \<Rightarrow> 'f \<Rightarrow> 'f \<Rightarrow> 'f \<Rightarrow> 'f \<Rightarrow> 'f \<Rightarrow> 'm"
  glm_perspective :: "'f \<Rightarrow> 'f \<Rightarrow> 'f \<Rightarrow> 'f \<Rightarrow> 'm"
  float_of_int :: "int \<Rightarrow> 'f"
  duration_cast_milliseconds :: "int \<Rightarrow> int"
  seconds_of_milliseconds :: "int \<Rightarrow> 'f"
  device_vertex_array_name :: "('f, 'm) gl_call list \<Rightarrow> GLuint"
  device_buffer_name :: "('f, 'm) gl_call list \<Rightarrow> GLuint"

section \<open>The globals of namespace \<open>asr\<close>\<close>

text \<open>
  \<open>current_gpu_geometry\<close> is a pointer: \<open>None\<close> is \<open>nullptr\<close>, and \<open>geometries\<close> is the
  memory of the caller in which the \<open>GPUGeometry\<close> objects live.
  \<open>current_matrix_stack\<close> is a pointer that only ever holds the address of one of the
  three stacks; it is represented by the mode that names the stack. A \<open>std::stack\<close> is
  the list of its elements, the top first. \<open>gl_calls\<close> is the device.
\<close>

record ('f, 'm) state =
  window_width :: c_int
  window_height :: c_int
  shader_program :: GLuint
  position_attribute_location :: GLint
  color_attribute_location :: GLint
  time_uniform_location :: GLint
  mvp_matrix_uniform_location :: GLint
  current_gpu_geometry :: "addr option"
  model_matrix_stack :: "'m list"
  view_matrix_stack :: "'m list"
  projection_matrix_stack :: "'m list"
  current_matrix_stack :: MatrixMode
  rendering_start_time :: time_point
  geometries :: "addr \<Rightarrow> GPUGeometry option"
  gl_calls :: "('f, 'm) gl_call list"

text \<open>The initialisers of the globals; the stacks are default-constructed, so empty.\<close>

definition initial_state :: "('f, 'm) state" where
  "initial_state =
     \<lparr> window_width = 500, window_height = 500,
       shader_program = 0,
       position_attribute_location = - 1,
       color_attribute_location = - 1,
       time_uniform_location = - 1,
       mvp_matrix_uniform_location = - 1,
       current_gpu_geometry = None,
       model_matrix_stack = [], view_matrix_stack = [], projection_matrix_stack = [],
       current_matrix_stack = Model,
       rendering_start_time = 0,
       geometries = (\<lambda>_. None),
       gl_calls = [] \<rparr>"

text \<open>
  A failed \<open>assert\<close> aborts the process. \<open>top()\<close> and \<open>pop()\<close> of an empty
  \<open>std::stack\<close>, and a read through a pointer to no object, have undefined behaviour.
\<close>

datatype fault = Assertion_failed | Undefined_behaviour

definition gl :: "('f, 'm) gl_call \<Rightarrow> ('f, 'm) state \<Rightarrow> ('f, 'm) state" where
  "gl c s = s\<lparr>gl_calls := gl_calls s @ [c]\<rparr>"

section \<open>\<open>std::stack\<close>\<close>

definition stack_top :: "'m list \<Rightarrow> fault + 'm" where
  "stack_top st = (case st of [] \<Rightarrow> Inl Undefined_behaviour | m # _ \<Rightarrow> Inr m)"

definition stack_pop :: "'m list \<Rightarrow> fault + 'm list" where
  "stack_pop st = (case st of [] \<Rightarrow> Inl Undefined_behaviour | _ # rest \<Rightarrow> Inr rest)"

definition stack_push :: "'m \<Rightarrow> 'm list \<Rightarrow> 'm list" where
  "stack_push m st = m # st"

definition stack_empty :: "'m list \<Rightarrow> bool" where
  "stack_empty st = (case st of [] \<Rightarrow> True | _ # _ \<Rightarrow> False)"

text \<open>Reading and writing the stack a \<open>std::stack<glm::mat4> *\<close> points to.\<close>

fun deref_stack :: "MatrixMode \<Rightarrow> ('f, 'm) state \<Rightarrow> 'm list" where
  "deref_stack Model s = model_matrix_stack s"
| "deref_stack View s = view_matrix_stack s"
| "deref_stack Projection s = projection_matrix_stack s"

fun assign_stack :: "MatrixMode \<Rightarrow> 'm list \<Rightarrow> ('f, 'm) state \<Rightarrow> ('f, 'm) state" where
  "assign_stack Model st s = s\<lparr>model_matrix_stack := st\<rparr>"
| "assign_stack View st s = s\<lparr>view_matrix_stack := st\<rparr>"
| "assign_stack Projection st s = s\<lparr>projection_matrix_stack := st\<rparr>"

section \<open>Transformation\<close>

fun set_matrix_mode :: "MatrixMode \<Rightarrow> ('f, 'm) state \<Rightarrow> ('f, 'm) state" where
  "set_matrix_mode Model s = s\<lparr>current_matrix_stack := Model\<rparr>"
| "set_matrix_mode View s = s\<lparr>current_matrix_stack := View\<rparr>"
| "set_matrix_mode Projection s = s\<lparr>current_matrix_stack := Projection\<rparr>"

definition translate_matrix ::
  "('f, 'm) extern \<Rightarrow> 'f vec3 \<Rightarrow> ('f, 'm) state \<Rightarrow> fault + ('f, 'm) state" where
  "translate_matrix E translation s =
     (let p = current_matrix_stack s in
      case stack_top (deref_stack p s) of Inl e \<Rightarrow> Inl e
      | Inr current_matrix \<Rightarrow>
          (let translated_matrix = glm_translate E current_matrix translation in
           case stack_pop (deref_stack p s) of Inl e \<Rightarrow> Inl e
           | Inr st \<Rightarrow> Inr (assign_stack p (stack_push translated_matrix st) s)))"

definition rotate_matrix ::
  "('f :: {zero, one}, 'm) extern \<Rightarrow> 'f vec3 \<Rightarrow> ('f, 'm) state \<Rightarrow> fault + ('f, 'm) state" where
  "rotate_matrix E rotation s =
     (let p = current_matrix_stack s in
      case stack_top (deref_stack p s) of Inl e \<Rightarrow> Inl e
      | Inr current_matrix \<Rightarrow>
          (let rotated_matrix = current_matrix;
               rotated_matrix = glm_rotate E rotated_matrix (vec3_y rotation) (Vec3 0 1 0);
               rotated_matrix = glm_rotate E rotated_matrix (vec3_x rotation) (Vec3 1 0 0);
               rotated_matrix = glm_rotate E rotated_matrix (vec3_z rotation) (Vec3 0 0 1) in
           case stack_pop (deref_stack p s) of Inl e \<Rightarrow> Inl e
           | Inr st \<Rightarrow> Inr (assign_stack p (stack_push rotated_matrix st) s)))"

definition scale_matrix ::
  "('f, 'm) extern \<Rightarrow> 'f vec3 \<Rightarrow> ('f, 'm) state \<Rightarrow> fault + ('f, 'm) state" where
  "scale_matrix E scale s =
     (let p = current_matrix_stack s in
      case stack_top (deref_stack p s) of Inl e \<Rightarrow> Inl e
      | Inr current_matrix \<Rightarrow>
          (let scaled_matrix = glm_scale E current_matrix scale in
           case stack_pop (deref_stack p s) of Inl e \<Rightarrow> Inl e
           | Inr st \<Rightarrow> Inr (assign_stack p (stack_push scaled_matrix st) s)))"

definition load_matrix :: "'m \<Rightarrow> ('f, 'm) state \<Rightarrow> fault + ('f, 'm) state" where
  "load_matrix matrix s =
     (let p = current_matrix_stack s in
      case stack_pop (deref_stack p s) of Inl e \<Rightarrow> Inl e
      | Inr st \<Rightarrow> Inr (assign_stack p (stack_push matrix st) s))"

definition load_identity_matrix :: "('f, 'm :: one) state \<Rightarrow> fault + ('f, 'm) state" where
  "load_identity_matrix s = load_matrix 1 s"

definition load_look_at_matrix ::
  "('f :: {zero, one}, 'm) extern \<Rightarrow> 'f vec3 \<Rightarrow> 'f vec3 \<Rightarrow> ('f, 'm) state
     \<Rightarrow> fault + ('f, 'm) state" where
  "load_look_at_matrix E position target s =
     (let up = Vec3 0 1 0 in load_matrix (glm_lookAt E position target up) s)"

definition load_orthographic_projection_matrix ::
  "('f :: {uminus, times, inverse}, 'm) extern \<Rightarrow> 'f \<Rightarrow> 'f \<Rightarrow> 'f \<Rightarrow> ('f, 'm) state
     \<Rightarrow> fault + ('f, 'm) state" where
  "load_orthographic_projection_matrix E zoom near_plane far_plane s =
     (let aspect_ratio =
            float_of_int E (sint (window_width s)) / float_of_int E (sint (window_height s));
          left = - (zoom * aspect_ratio);
          right = zoom * aspect_ratio;
          bottom = - zoom;
          top = zoom in
      load_matrix (glm_ortho E left right bottom top near_plane far_plane) s)"

definition load_perspective_projection_matrix ::
  "('f :: inverse, 'm) extern \<Rightarrow> 'f \<Rightarrow> 'f \<Rightarrow> 'f \<Rightarrow> ('f, 'm) state
     \<Rightarrow> fault + ('f, 'm) state" where
  "load_perspective_projection_matrix E field_of_view near_plane far_plane s =
     (let aspect_ratio =
            float_of_int E (sint (window_width s)) / float_of_int E (sint (window_height s)) in
      load_matrix (glm_perspective E field_of_view aspect_ratio near_plane far_plane) s)"

definition push_matrix :: "('f, 'm) state \<Rightarrow> fault + ('f, 'm) state" where
  "push_matrix s =
     (let p = current_matrix_stack s in
      case stack_top (deref_stack p s) of Inl e \<Rightarrow> Inl e
      | Inr top_matrix \<Rightarrow> Inr (assign_stack p (stack_push top_matrix (deref_stack p s)) s))"

definition pop_matrix :: "('f, 'm :: one) state \<Rightarrow> fault + ('f, 'm) state" where
  "pop_matrix s =
     (let p = current_matrix_stack s in
      case stack_pop (deref_stack p s) of Inl e \<Rightarrow> Inl e
      | Inr st \<Rightarrow>
          Inr (assign_stack p (if stack_empty st then stack_push 1 st else st) s))"

section \<open>Shader program handling\<close>

definition destroy_es2_shader_program :: "('f, 'm) state \<Rightarrow> ('f, 'm) state" where
  "destroy_es2_shader_program s =
     (let s = gl (GlUseProgram 0) s;
          s = gl (GlDeleteProgram (shader_program s)) s;
          s = s\<lparr>shader_program := 0\<rparr>;
          s = s\<lparr>position_attribute_location := - 1\<rparr>;
          s = s\<lparr>color_attribute_location := - 1\<rparr>;
          s = s\<lparr>time_uniform_location := - 1\<rparr> in
      s)"

section \<open>GPUGeometry buffer handling\<close>

fun convert_geometry_type_to_es2_geometry_type :: "GeometryType \<Rightarrow> GLprimitive" where
  "convert_geometry_type_to_es2_geometry_type Points = GL_POINTS"
| "convert_geometry_type_to_es2_geometry_type Lines = GL_LINES"
| "convert_geometry_type_to_es2_geometry_type LineLoop = GL_LINE_LOOP"
| "convert_geometry_type_to_es2_geometry_type LineStrip = GL_LINE_STRIP"
| "convert_geometry_type_to_es2_geometry_type Triangles = GL_TRIANGLES"
| "convert_geometry_type_to_es2_geometry_type TriangleFan = GL_TRIANGLE_FAN"
| "convert_geometry_type_to_es2_geometry_type TriangleStrip = GL_TRIANGLE_STRIP"

text \<open>
  \<open>sizeof(float)\<close>, \<open>sizeof(GLfloat)\<close> and \<open>sizeof(unsigned int)\<close> are 4. The local
  \<open>geometry\<close> is built field by field and returned by value at the end; the function
  has no other exit.
\<close>

definition generate_es2_gpu_geometry ::
  "('f, 'm) extern \<Rightarrow> GeometryType \<Rightarrow> 'f Vertex list \<Rightarrow> c_uint list \<Rightarrow> ('f, 'm) state
     \<Rightarrow> GPUGeometry \<times> ('f, 'm) state" where
  "generate_es2_gpu_geometry E ty vertices indices s =
     (let vertex_array_object = device_vertex_array_name E (gl_calls s);
          s = gl (GlGenVertexArrays vertex_array_object) s;
          s = gl (GlBindVertexArray vertex_array_object) s;
          vertex_buffer_object = device_buffer_name E (gl_calls s);
          s = gl (GlGenBuffers vertex_buffer_object) s;
          s = gl (GlBindBuffer GL_ARRAY_BUFFER vertex_buffer_object) s;
          s = gl (GlBufferDataVertices GL_ARRAY_BUFFER
                    (of_nat (length vertices) * 7 * 4) vertices GL_STATIC_DRAW) s;
          index_buffer_object = device_buffer_name E (gl_calls s);
          s = gl (GlGenBuffers index_buffer_object) s;
          s = gl (GlBindBuffer GL_ELEMENT_ARRAY_BUFFER index_buffer_object) s;
          s = gl (GlBufferDataIndices GL_ELEMENT_ARRAY_BUFFER
                    (of_nat (length indices) * 4) indices GL_STATIC_DRAW) s;
          stride = 4 * 7;
          s = gl (GlEnableVertexAttribArray (position_attribute_location s)) s;
          s = gl (GlVertexAttribPointer (position_attribute_location s)
                    3 GL_FLOAT False stride 0) s;
          s = gl (GlEnableVertexAttribArray (color_attribute_location s)) s;
          s = gl (GlVertexAttribPointer (color_attribute_location s)
                    4 GL_FLOAT False stride (4 * 3)) s;
          s = gl (GlBindVertexArray 0) s;
          s = gl (GlBindBuffer GL_ARRAY_BUFFER 0) s;
          s = gl (GlBindBuffer GL_ELEMENT_ARRAY_BUFFER 0) s in
      (\<lparr> type = ty,
         vertex_count = of_nat (length indices),
         vertex_array_object = vertex_array_object,
         vertex_buffer_object = vertex_buffer_object,
         index_buffer_object = index_buffer_object \<rparr>, s))"

definition set_es2_gpu_geometry_current ::
  "addr option \<Rightarrow> ('f, 'm) state \<Rightarrow> fault + ('f, 'm) state" where
  "set_es2_gpu_geometry_current geometry s =
     (let s = s\<lparr>current_gpu_geometry := geometry\<rparr> in
      case geometry of
        Some a \<Rightarrow>
          (case geometries s a of None \<Rightarrow> Inl Undefined_behaviour
           | Some g \<Rightarrow> Inr (gl (GlBindVertexArray (vertex_array_object g)) s))
      | None \<Rightarrow> Inr (gl (GlBindVertexArray 0) s))"

text \<open>The parameter is a reference: the object at address \<open>a\<close> is updated in place.\<close>

definition destroy_es2_gpu_geometry ::
  "addr \<Rightarrow> ('f, 'm) state \<Rightarrow> fault + ('f, 'm) state" where
  "destroy_es2_gpu_geometry a s =
     (case geometries s a of None \<Rightarrow> Inl Undefined_behaviour
      | Some geometry \<Rightarrow>
          (let vertex_array_object = vertex_array_object geometry;
               vertex_buffer_object = vertex_buffer_object geometry;
               index_buffer_object = index_buffer_object geometry;
               s = gl (GlBindVertexArray 0) s;
               s = gl (GlDeleteVertexArrays vertex_array_object) s;
               geometry = geometry\<lparr>vertex_array_object := 0\<rparr>;
               s = gl (GlBindBuffer GL_ARRAY_BUFFER 0) s;
               s = gl (GlDeleteBuffers vertex_buffer_object) s;
               geometry = geometry\<lparr>vertex_buffer_object := 0\<rparr>;
               s = gl (GlBindBuffer GL_ELEMENT_ARRAY_BUFFER 0) s;
               s = gl (GlDeleteBuffers index_buffer_object) s;
               geometry = geometry\<lparr>index_buffer_object := 0\<rparr> in
           Inr (s\<lparr>geometries := (geometries s)(a \<mapsto> geometry)\<rparr>)))"

section \<open>Rendering\<close>

text \<open>The loop \<open>while (!stack.empty()) stack.pop();\<close>.\<close>

fun pop_while_not_empty :: "'m list \<Rightarrow> 'm list" where
  "pop_while_not_empty [] = []"
| "pop_while_not_empty (m # st) = pop_while_not_empty st"

definition prepare_for_es2_rendering ::
  "time_point \<Rightarrow> ('f :: zero, 'm :: one) state \<Rightarrow> ('f, 'm) state" where
  "prepare_for_es2_rendering now s =
     (let s = gl (GlClearColor 0 0 0 0) s;
          s = gl (GlViewport 0 0 (window_width s) (window_height s)) s;
          s = gl (GlEnable GL_PROGRAM_POINT_SIZE) s;
          s = s\<lparr>model_matrix_stack := pop_while_not_empty (model_matrix_stack s)\<rparr>;
          s = s\<lparr>model_matrix_stack := stack_push 1 (model_matrix_stack s)\<rparr>;
          s = s\<lparr>view_matrix_stack := pop_while_not_empty (view_matrix_stack s)\<rparr>;
          s = s\<lparr>view_matrix_stack := stack_push 1 (view_matrix_stack s)\<rparr>;
          s = s\<lparr>projection_matrix_stack := pop_while_not_empty (projection_matrix_stack s)\<rparr>;
          s = s\<lparr>projection_matrix_stack := stack_push 1 (projection_matrix_stack s)\<rparr>;
          s = s\<lparr>rendering_start_time := now\<rparr> in
      s)"

definition prepare_to_render_es2_frame :: "('f, 'm) state \<Rightarrow> ('f, 'm) state" where
  "prepare_to_render_es2_frame s = gl (GlClear [GL_COLOR_BUFFER_BIT, GL_DEPTH_BUFFER_BIT]) s"

definition set_es2_line_width :: "'f \<Rightarrow> ('f, 'm) state \<Rightarrow> ('f, 'm) state" where
  "set_es2_line_width line_width s = gl (GlLineWidth line_width) s"

definition enable_face_culling :: "('f, 'm) state \<Rightarrow> ('f, 'm) state" where
  "enable_face_culling s =
     (let s = gl (GlEnable GL_CULL_FACE) s;
          s = gl (GlFrontFace GL_CCW) s;
          s = gl (GlCullFace GL_BACK) s in
      s)"

definition disable_face_culling :: "('f, 'm) state \<Rightarrow> ('f, 'm) state" where
  "disable_face_culling s = gl (GlDisable GL_CULL_FACE) s"

definition enable_depth_test :: "('f, 'm) state \<Rightarrow> ('f, 'm) state" where
  "enable_depth_test s =
     (let s = gl (GlEnable GL_DEPTH_TEST) s;
          s = gl (GlDepthFunc GL_LESS) s in
      s)"

definition disable_depth_test :: "('f, 'm) state \<Rightarrow> ('f, 'm) state" where
  "disable_depth_test s = gl (GlDisable GL_DEPTH_TEST) s"

text \<open>
  The three parts of \<open>render_current_es2_gpu_geometry\<close> after the assertion: the time
  uniform, the matrix uniform and the draw call. For the time uniform the two clock
  readings are subtracted in the clock's ticks, the difference is cast to a count of
  milliseconds, and that count, as a \<open>double\<close> divided by \<open>1000.0\<close>, is passed to
  \<open>glUniform1f\<close>.
\<close>

definition render_time_uniform ::
  "('f :: inverse, 'm) extern \<Rightarrow> time_point \<Rightarrow> ('f, 'm) state \<Rightarrow> ('f, 'm) state" where
  "render_time_uniform E now s =
     (if time_uniform_location s \<noteq> - 1 then
        (let time = duration_cast_milliseconds E (now - rendering_start_time s) in
         gl (GlUniform1f (time_uniform_location s) (seconds_of_milliseconds E time)) s)
      else s)"

definition render_mvp_uniform ::
  "('f, 'm :: {times, inverse}) state \<Rightarrow> fault + ('f, 'm) state" where
  "render_mvp_uniform s =
     (if mvp_matrix_uniform_location s \<noteq> - 1 then
        (case stack_top (model_matrix_stack s) of Inl e \<Rightarrow> Inl e
         | Inr model_matrix \<Rightarrow>
        (case stack_top (view_matrix_stack s) of Inl e \<Rightarrow> Inl e
         | Inr view_top \<Rightarrow>
        (let view_matrix = inverse view_top in
         case stack_top (projection_matrix_stack s) of Inl e \<Rightarrow> Inl e
         | Inr projection_matrix \<Rightarrow>
        (let model_view_projection_matrix = projection_matrix * view_matrix * model_matrix in
         Inr (gl (GlUniformMatrix4fv (mvp_matrix_uniform_location s) 1 False
                    model_view_projection_matrix) s)))))
      else Inr s)"

definition render_draw_elements :: "addr \<Rightarrow> ('f, 'm) state \<Rightarrow> fault + ('f, 'm) state" where
  "render_draw_elements a s =
     (case geometries s a of None \<Rightarrow> Inl Undefined_behaviour
      | Some g \<Rightarrow>
          Inr (gl (GlDrawElements (convert_geometry_type_to_es2_geometry_type (type g))
                     (vertex_count g) GL_UNSIGNED_INT) s))"

definition render_current_es2_gpu_geometry ::
  "('f :: inverse, 'm :: {times, inverse}) extern \<Rightarrow> time_point \<Rightarrow> ('f, 'm) state
     \<Rightarrow> fault + ('f, 'm) state" where
  "render_current_es2_gpu_geometry E now s =
     (case current_gpu_geometry s of None \<Rightarrow> Inl Assertion_failed
      | Some a \<Rightarrow>
          (let s = gl (GlUseProgram (shader_program s)) s;
               s = render_time_uniform E now s in
           case render_mvp_uniform s of Inl e \<Rightarrow> Inl e
           | Inr s \<Rightarrow> render_draw_elements a s))"

text \<open>
  Whether a capability is enabled on the device: it is disabled at first, and the last
  \<open>glEnable\<close> or \<open>glDisable\<close> that names it decides.
\<close>

definition gl_switch :: "GLcap \<Rightarrow> bool \<Rightarrow> ('f, 'm) gl_call \<Rightarrow> bool" where
  "gl_switch cap b c =
     (case c of
        GlEnable k \<Rightarrow> (if k = cap then True else b)
      | GlDisable k \<Rightarrow> (if k = cap then False else b)
      | _ \<Rightarrow> b)"

definition gl_is_enabled :: "GLcap \<Rightarrow> ('f, 'm) gl_call list \<Rightarrow> bool" where
  "gl_is_enabled cap calls = foldl (gl_switch cap) False calls"

section \<open>Sequences of stack operations\<close>

text \<open>
  A caller's sequence of \<open>set_matrix_mode\<close>, \<open>push_matrix\<close> and \<open>pop_matrix\<close> calls; it
  stops at the first fault.
\<close>

datatype stack_op = Set_matrix_mode MatrixMode | Push_matrix | Pop_matrix

fun run_op :: "stack_op \<Rightarrow> ('f, 'm :: one) state \<Rightarrow> fault + ('f, 'm) state" where
  "run_op (Set_matrix_mode mode) s = Inr (set_matrix_mode mode s)"
| "run_op Push_matrix s = push_matrix s"
| "run_op Pop_matrix s = pop_matrix s"

fun run_ops :: "stack_op list \<Rightarrow> ('f, 'm :: one) state \<Rightarrow> fault + ('f, 'm) state" where
  "run_ops [] s = Inr s"
| "run_ops (op # ops) s =
     (case run_op op s of Inl e \<Rightarrow> Inl e | Inr s' \<Rightarrow> run_ops ops s')"

definition stacks_not_empty :: "('f, 'm) state \<Rightarrow> bool" where
  "stacks_not_empty s =
     (\<not> stack_empty (model_matrix_stack s) \<and> \<not> stack_empty (view_matrix_stack s)
      \<and> \<not> stack_empty (projection_matrix_stack s))"

section \<open>An instance of the parameters: glm over the real numbers\<close>

text \<open>
  The theorems below hold for every scalar type, matrix type and \<open>extern\<close>. To show
  that their hypotheses can be met, the parameters are instantiated here with the
  formulas of glm (column-major \<open>mat4\<close>, right-handed, depth range \<open>-1\<close> to \<open>1\<close>)
  computed in the real numbers, with a clock that ticks in nanoseconds, and with a
  device that numbers the names it hands out.
  Nothing in the model of \<open>asr.h\<close> above depends on this section.
\<close>

datatype 'a vec4 = Vec4 (vec4_x: 'a) (vec4_y: 'a) (vec4_z: 'a) (vec4_w: 'a)

datatype 'a mat4 = Mat4 (col0: "'a vec4") (col1: "'a vec4") (col2: "'a vec4") (col3: "'a vec4")

fun vec4_add :: "'a :: plus vec4 \<Rightarrow> 'a vec4 \<Rightarrow> 'a vec4" where
  "vec4_add (Vec4 a b c d) (Vec4 a' b' c' d') = Vec4 (a + a') (b + b') (c + c') (d + d')"

fun vec4_sub :: "'a :: minus vec4 \<Rightarrow> 'a vec4 \<Rightarrow> 'a vec4" where
  "vec4_sub (Vec4 a b c d) (Vec4 a' b' c' d') = Vec4 (a - a') (b - b') (c - c') (d - d')"

fun vec4_mul :: "'a :: times vec4 \<Rightarrow> 'a vec4 \<Rightarrow> 'a vec4" where
  "vec4_mul (Vec4 a b c d) (Vec4 a' b' c' d') = Vec4 (a * a') (b * b') (c * c') (d * d')"

fun vec4_scale :: "'a :: times vec4 \<Rightarrow> 'a \<Rightarrow> 'a vec4" where
  "vec4_scale (Vec4 a b c d) k = Vec4 (a * k) (b * k) (c * k) (d * k)"

definition mat4_apply :: "'a :: {plus, times} mat4 \<Rightarrow> 'a vec4 \<Rightarrow> 'a vec4" where
  "mat4_apply m v =
     vec4_add (vec4_add (vec4_add (vec4_scale (col0 m) (vec4_x v)) (vec4_scale (col1 m) (vec4_y v)))
                 (vec4_scale (col2 m) (vec4_z v)))
       (vec4_scale (col3 m) (vec4_w v))"

definition mat4_identity :: "'a :: {zero, one} mat4" where
  "mat4_identity = Mat4 (Vec4 1 0 0 0) (Vec4 0 1 0 0) (Vec4 0 0 1 0) (Vec4 0 0 0 1)"

definition mat4_times :: "'a :: {plus, times} mat4 \<Rightarrow> 'a mat4 \<Rightarrow> 'a mat4" where
  "mat4_times m1 m2 =
     Mat4 (mat4_apply m1 (col0 m2)) (mat4_apply m1 (col1 m2))
          (mat4_apply m1 (col2 m2)) (mat4_apply m1 (col3 m2))"

definition mat4_inverse :: "'a :: field mat4 \<Rightarrow> 'a mat4" where
  "mat4_inverse m =
     (let m00 = vec4_x (col0 m); m01 = vec4_y (col0 m); m02 = vec4_z (col0 m); m03 = vec4_w (col0 m);
          m10 = vec4_x (col1 m); m11 = vec4_y (col1 m); m12 = vec4_z (col1 m); m13 = vec4_w (col1 m);
          m20 = vec4_x (col2 m); m21 = vec4_y (col2 m); m22 = vec4_z (col2 m); m23 = vec4_w (col2 m);
          m30 = vec4_x (col3 m); m31 = vec4_y (col3 m); m32 = vec4_z (col3 m); m33 = vec4_w (col3 m);
          Coef00 = m22 * m33 - m32 * m23;
          Coef02 = m12 * m33 - m32 * m13;
          Coef03 = m12 * m23 - m22 * m13;
          Coef04 = m21 * m33 - m31 * m23;
          Coef06 = m11 * m33 - m31 * m13;
          Coef07 = m11 * m23 - m21 * m13;
          Coef08 = m21 * m32 - m31 * m22;
          Coef10 = m11 * m32 - m31 * m12;
          Coef11 = m11 * m22 - m21 * m12;
          Coef12 = m20 * m33 - m30 * m23;
          Coef14 = m10 * m33 - m30 * m13;
          Coef15 = m10 * m23 - m20 * m13;
          Coef16 = m20 * m32 - m30 * m22;
          Coef18 = m10 * m32 - m30 * m12;
          Coef19 = m10 * m22 - m20 * m12;
          Coef20 = m20 * m31 - m30 * m21;
          Coef22 = m10 * m31 - m30 * m11;
          Coef23 = m10 * m21 - m20 * m11;
          Fac0 = Vec4 Coef00 Coef00 Coef02 Coef03;
          Fac1 = Vec4 Coef04 Coef04 Coef06 Coef07;
          Fac2 = Vec4 Coef08 Coef08 Coef10 Coef11;
          Fac3 = Vec4 Coef12 Coef12 Coef14 Coef15;
          Fac4 = Vec4 Coef16 Coef16 Coef18 Coef19;
          Fac5 = Vec4 Coef20 Coef20 Coef22 Coef23;
          Vec0 = Vec4 m10 m00 m00 m00;
          Vec1 = Vec4 m11 m01 m01 m01;
          Vec2 = Vec4 m12 m02 m02 m02;
          Vec3 = Vec4 m13 m03 m03 m03;
          Inv0 = vec4_add (vec4_sub (vec4_mul Vec1 Fac0) (vec4_mul Vec2 Fac1)) (vec4_mul Vec3 Fac2);
          Inv1 = vec4_add (vec4_sub (vec4_mul Vec0 Fac0) (vec4_mul Vec2 Fac3)) (vec4_mul Vec3 Fac4);
          Inv2 = vec4_add (vec4_sub (vec4_mul Vec0 Fac1) (vec4_mul Vec1 Fac3)) (vec4_mul Vec3 Fac5);
          Inv3 = vec4_add (vec4_sub (vec4_mul Vec0 Fac2) (vec4_mul Vec1 Fac4)) (vec4_mul Vec2 Fac5);
          SignA = Vec4 1 (- 1) 1 (- 1);
          SignB = Vec4 (- 1) 1 (- 1) 1;
          Inverse = Mat4 (vec4_mul Inv0 SignA) (vec4_mul Inv1 SignB)
                         (vec4_mul Inv2 SignA) (vec4_mul Inv3 SignB);
          Row0 = Vec4 (vec4_x (col0 Inverse)) (vec4_x (col1 Inverse))
                      (vec4_x (col2 Inverse)) (vec4_x (col3 Inverse));
          Dot0 = vec4_mul (Vec4 m00 m01 m02 m03) Row0;
          Dot1 = (vec4_x Dot0 + vec4_y Dot0) + (vec4_z Dot0 + vec4_w Dot0);
          OneOverDeterminant = 1 / Dot1 in
      Mat4 (vec4_scale (col0 Inverse) OneOverDeterminant)
           (vec4_scale (col1 Inverse) OneOverDeterminant)
           (vec4_scale (col2 Inverse) OneOverDeterminant)
           (vec4_scale (col3 Inverse) OneOverDeterminant))"

instantiation mat4 :: (field) "{one, times, inverse}"
begin

definition one_mat4 :: "'a mat4" where
  "one_mat4 = mat4_identity"

definition times_mat4 :: "'a mat4 \<Rightarrow> 'a mat4 \<Rightarrow> 'a mat4" where
  "times_mat4 = mat4_times"

definition inverse_mat4 :: "'a mat4 \<Rightarrow> 'a mat4" where
  "inverse_mat4 = mat4_inverse"

definition divide_mat4 :: "'a mat4 \<Rightarrow> 'a mat4 \<Rightarrow> 'a mat4" where
  "divide_mat4 m1 m2 = mat4_times m1 (mat4_inverse m2)"

instance ..

end



fun vec3_sub :: "'a :: minus vec3 \<Rightarrow> 'a vec3 \<Rightarrow> 'a vec3" where
  "vec3_sub (Vec3 a b c) (Vec3 a' b' c') = Vec3 (a - a') (b - b') (c - c')"

fun vec3_dot :: "'a :: {plus, times} vec3 \<Rightarrow> 'a vec3 \<Rightarrow> 'a" where
  "vec3_dot (Vec3 a b c) (Vec3 a' b' c') = a * a' + b * b' + c * c'"

fun vec3_cross :: "'a :: {minus, times} vec3 \<Rightarrow> 'a vec3 \<Rightarrow> 'a vec3" where
  "vec3_cross (Vec3 a b c) (Vec3 a' b' c') =
     Vec3 (b * c' - b' * c) (c * a' - c' * a) (a * b' - a' * b)"

definition vec3_normalize :: "real vec3 \<Rightarrow> real vec3" where
  "vec3_normalize v =
     (let k = 1 / sqrt (vec3_dot v v) in Vec3 (vec3_x v * k) (vec3_y v * k) (vec3_z v * k))"

definition real_translate :: "real mat4 \<Rightarrow> real vec3 \<Rightarrow> real mat4" where
  "real_translate m v =
     Mat4 (col0 m) (col1 m) (col2 m)
       (vec4_add (vec4_add (vec4_add (vec4_scale (col0 m) (vec3_x v))
                                     (vec4_scale (col1 m) (vec3_y v)))
                           (vec4_scale (col2 m) (vec3_z v)))
                 (col3 m))"

definition rotation_part :: "real \<Rightarrow> real vec3 \<Rightarrow> real vec3 \<times> real vec3 \<times> real vec3" where
  "rotation_part angle v =
     (let c = cos angle;
          s = sin angle;
          axis = vec3_normalize v;
          temp = Vec3 ((1 - c) * vec3_x axis) ((1 - c) * vec3_y axis) ((1 - c) * vec3_z axis) in
      (Vec3 (c + vec3_x temp * vec3_x axis)
            (vec3_x temp * vec3_y axis + s * vec3_z axis)
            (vec3_x temp * vec3_z axis - s * vec3_y axis),
       Vec3 (vec3_y temp * vec3_x axis - s * vec3_z axis)
            (c + vec3_y temp * vec3_y axis)
            (vec3_y temp * vec3_z axis + s * vec3_x axis),
       Vec3 (vec3_z temp * vec3_x axis + s * vec3_y axis)
            (vec3_z temp * vec3_y axis - s * vec3_x axis)
            (c + vec3_z temp * vec3_z axis)))"

definition combine3 :: "real mat4 \<Rightarrow> real vec3 \<Rightarrow> real vec4" where
  "combine3 m r =
     vec4_add (vec4_add (vec4_scale (col0 m) (vec3_x r)) (vec4_scale (col1 m) (vec3_y r)))
              (vec4_scale (col2 m) (vec3_z r))"

definition real_rotate :: "real mat4 \<Rightarrow> real \<Rightarrow> real vec3 \<Rightarrow> real mat4" where
  "real_rotate m angle v =
     (case rotation_part angle v of
        (Rotate0, Rotate1, Rotate2) \<Rightarrow>
          Mat4 (combine3 m Rotate0) (combine3 m Rotate1) (combine3 m Rotate2) (col3 m))"

definition real_scale :: "real mat4 \<Rightarrow> real vec3 \<Rightarrow> real mat4" where
  "real_scale m v =
     Mat4 (vec4_scale (col0 m) (vec3_x v)) (vec4_scale (col1 m) (vec3_y v))
          (vec4_scale (col2 m) (vec3_z v)) (col3 m)"

definition real_lookAt :: "real vec3 \<Rightarrow> real vec3 \<Rightarrow> real vec3 \<Rightarrow> real mat4" where
  "real_lookAt eye center up =
     (let f = vec3_normalize (vec3_sub center eye);
          s = vec3_normalize (vec3_cross f up);
          u = vec3_cross s f in
      Mat4 (Vec4 (vec3_x s) (vec3_x u) (- vec3_x f) 0)
           (Vec4 (vec3_y s) (vec3_y u) (- vec3_y f) 0)
           (Vec4 (vec3_z s) (vec3_z u) (- vec3_z f) 0)
           (Vec4 (- vec3_dot s eye) (- vec3_dot u eye) (vec3_dot f eye) 1))"

definition real_ortho :: "real \<Rightarrow> real \<Rightarrow> real \<Rightarrow> real \<Rightarrow> real \<Rightarrow> real \<Rightarrow> real mat4" where
  "real_ortho l r b t zNear zFar =
     Mat4 (Vec4 (2 / (r - l)) 0 0 0)
          (Vec4 0 (2 / (t - b)) 0 0)
          (Vec4 0 0 (- (2 / (zFar - zNear))) 0)
          (Vec4 (- ((r + l) / (r - l))) (- ((t + b) / (t - b)))
                (- ((zFar + zNear) / (zFar - zNear))) 1)"

definition real_perspective :: "real \<Rightarrow> real \<Rightarrow> real \<Rightarrow> real \<Rightarrow> real mat4" where
  "real_perspective fovy aspect zNear zFar =
     (let tanHalfFovy = tan (fovy / 2) in
      Mat4 (Vec4 (1 / (aspect * tanHalfFovy)) 0 0 0)
           (Vec4 0 (1 / tanHalfFovy) 0 0)
           (Vec4 0 0 (- ((zFar + zNear) / (zFar - zNear))) (- 1))
           (Vec4 0 0 (- ((2 * zFar * zNear) / (zFar - zNear))) 0))"

definition counting_name :: "('f, 'm) gl_call list \<Rightarrow> GLuint" where
  "counting_name calls = (let n = of_nat (length calls) + 1 in if n = 0 then 1 else n)"

text \<open>
  \<open>duration_cast\<close> to a coarser unit truncates towards zero.
\<close>

definition nanoseconds_to_milliseconds :: "int \<Rightarrow> int" where
  "nanoseconds_to_milliseconds d = sgn d * (\<bar>d\<bar> div 1000000)"

definition real_extern :: "(real, real mat4) extern" where
  "real_extern =
     \<lparr> glm_translate = real_translate,
       glm_rotate = real_rotate,
       glm_scale = real_scale,
       glm_lookAt = real_lookAt,
       glm_ortho = real_ortho,
       glm_perspective = real_perspective,
       float_of_int = real_of_int,
       duration_cast_milliseconds = nanoseconds_to_milliseconds,
       seconds_of_milliseconds = (\<lambda>ms. real_of_int ms / 1000),
       device_vertex_array_name = counting_name,
       device_buffer_name = counting_name \<rparr>"

section \<open>An example scene\<close>

text \<open>
  A state of a running session: a shader with a time and a matrix uniform, one triangle
  whose \<open>GPUGeometry\<close> lives at address \<open>0\<close> and is selected, and a model matrix that
  translates by \<open>(1, 0, 0)\<close>.
\<close>

definition example_geometry :: GPUGeometry where
  "example_geometry =
     \<lparr> type = Triangles, vertex_count = 3, vertex_array_object = 1,
       vertex_buffer_object = 3, index_buffer_object = 6 \<rparr>"

definition example_scene :: "(real, real mat4) state" where
  "example_scene =
     initial_state
       \<lparr> shader_program := 5,
         time_uniform_location := 2,
         mvp_matrix_uniform_location := 3,
         current_gpu_geometry := Some 0,
         model_matrix_stack := [real_translate 1 (Vec3 1 0 0)],
         view_matrix_stack := [1],
         projection_matrix_stack := [1],
         geometries := [0 \<mapsto> example_geometry] \<rparr>"

section \<open>Stack lemmas\<close>

lemma deref_assign_same [simp]: "deref_stack p (assign_stack p st s) = st"
  by (cases p) simp_all

lemma current_assign [simp]:
  "current_matrix_stack (assign_stack p st s) = current_matrix_stack s"
  by (cases p) simp_all

lemma stack_empty_iff [simp]: "stack_empty st \<longleftrightarrow> st = []"
  by (cases st) (simp_all add: stack_empty_def)

lemma stacks_not_empty_deref: "stacks_not_empty s \<Longrightarrow> deref_stack p s \<noteq> []"
  by (cases p) (simp_all add: stacks_not_empty_def)

lemma stacks_not_empty_assign:
  "stacks_not_empty s \<Longrightarrow> st \<noteq> [] \<Longrightarrow> stacks_not_empty (assign_stack p st s)"
  by (cases p) (simp_all add: stacks_not_empty_def)

lemma set_matrix_mode_eq: "set_matrix_mode mode s = s\<lparr>current_matrix_stack := mode\<rparr>"
  by (cases mode) simp_all

lemma push_matrix_Cons:
  "deref_stack (current_matrix_stack s) s = m # st \<Longrightarrow>
   push_matrix s = Inr (assign_stack (current_matrix_stack s) (m # m # st) s)"
  by (simp add: push_matrix_def stack_top_def stack_push_def)

lemma pop_matrix_Cons:
  "deref_stack (current_matrix_stack s) s = m # st \<Longrightarrow>
   pop_matrix s = Inr (assign_stack (current_matrix_stack s) (if st = [] then [1] else st) s)"
  by (simp add: pop_matrix_def stack_pop_def stack_push_def)

lemma load_matrix_Cons:
  "deref_stack (current_matrix_stack s) s = m # st \<Longrightarrow>
   load_matrix matrix s = Inr (assign_stack (current_matrix_stack s) (matrix # st) s)"
  by (simp add: load_matrix_def stack_pop_def stack_push_def)

lemma run_op_preserves:
  assumes "stacks_not_empty s"
  shows "\<exists>s'. run_op op s = Inr s' \<and> stacks_not_empty s'"
proof (cases op)
  case (Set_matrix_mode mode)
  with assms show ?thesis by (simp add: set_matrix_mode_eq stacks_not_empty_def)
next
  case Push_matrix
  from assms obtain m st where c: "deref_stack (current_matrix_stack s) s = m # st"
    using stacks_not_empty_deref [of s "current_matrix_stack s"] by (auto simp: neq_Nil_conv)
  show ?thesis using Push_matrix assms
    by (simp add: push_matrix_Cons [OF c] stacks_not_empty_assign)
next
  case Pop_matrix
  from assms obtain m st where c: "deref_stack (current_matrix_stack s) s = m # st"
    using stacks_not_empty_deref [of s "current_matrix_stack s"] by (auto simp: neq_Nil_conv)
  show ?thesis using Pop_matrix assms
    by (simp add: pop_matrix_Cons [OF c] stacks_not_empty_assign)
qed

lemma run_ops_preserves:
  "stacks_not_empty s \<Longrightarrow> \<exists>s'. run_ops ops s = Inr s' \<and> stacks_not_empty s'"
proof (induction ops arbitrary: s)
  case Nil
  then show ?case by simp
next
  case (Cons op ops)
  from run_op_preserves [OF Cons.prems, of op]
  obtain s1 where s1: "run_op op s = Inr s1" "stacks_not_empty s1" by blast
  from Cons.IH [OF s1(2)] s1(1) show ?case by simp
qed

lemma pop_while_not_empty_Nil [simp]: "pop_while_not_empty st = []"
  by (induction st) simp_all

lemma prepare_for_es2_rendering_eq:
  "prepare_for_es2_rendering now s =
     s\<lparr>model_matrix_stack := [1], view_matrix_stack := [1], projection_matrix_stack := [1],
       rendering_start_time := now,
       gl_calls := gl_calls s @
         [GlClearColor 0 0 0 0, GlViewport 0 0 (window_width s) (window_height s),
          GlEnable GL_PROGRAM_POINT_SIZE]\<rparr>"
  by (simp add: prepare_for_es2_rendering_def gl_def stack_push_def)

section \<open>Device lemmas\<close>

lemma gl_is_enabled_append:
  "gl_is_enabled cap (calls @ [c]) = gl_switch cap (gl_is_enabled cap calls) c"
  by (simp add: gl_is_enabled_def)

lemma gl_is_enabled_snoc3:
  "gl_is_enabled cap (calls @ [c1, c2, c3])
     = gl_switch cap (gl_switch cap (gl_switch cap (gl_is_enabled cap calls) c1) c2) c3"
  by (simp add: gl_is_enabled_def)

section \<open>Instance lemmas\<close>

lemma mat4_one_times: "1 * (m :: 'a :: field mat4) = m"
  by (cases m; cases "col0 m"; cases "col1 m"; cases "col2 m"; cases "col3 m")
     (simp add: one_mat4_def times_mat4_def mat4_identity_def mat4_times_def mat4_apply_def)

lemma mat4_inverse_one: "inverse (1 :: 'a :: field mat4) = 1"
  by (simp add: one_mat4_def inverse_mat4_def mat4_identity_def mat4_inverse_def Let_def)

lemma combine3_one: "combine3 1 r = Vec4 (vec3_x r) (vec3_y r) (vec3_z r) 0"
  by (simp add: combine3_def one_mat4_def mat4_identity_def)

lemma mat4_apply_0: "mat4_apply (m :: real mat4) (Vec4 a b c 0) = combine3 m (Vec3 a b c)"
  by (cases m; cases "col0 m"; cases "col1 m"; cases "col2 m"; cases "col3 m")
     (simp add: mat4_apply_def combine3_def)

lemma mat4_apply_e3: "mat4_apply (m :: real mat4) (Vec4 0 0 0 1) = col3 m"
  by (cases m; cases "col0 m"; cases "col1 m"; cases "col2 m"; cases "col3 m")
     (simp add: mat4_apply_def)

lemma real_rotate_contract: "real_rotate m a v = m * real_rotate 1 a v"
proof -
  obtain r0 r1 r2 where r: "rotation_part a v = (r0, r1, r2)"
    by (cases "rotation_part a v") auto
  have c3: "col3 (1 :: real mat4) = Vec4 0 0 0 1"
    by (simp add: one_mat4_def mat4_identity_def)
  show ?thesis
    by (simp add: real_rotate_def r combine3_one times_mat4_def mat4_times_def
        mat4_apply_0 mat4_apply_e3 c3)
qed

lemma counting_name_nonzero: "counting_name calls \<noteq> 0"
  by (simp add: counting_name_def Let_def)

section \<open>Rendering lemmas\<close>

lemma gl_calls_gl [simp]: "gl_calls (gl c s) = gl_calls s @ [c]"
  by (simp add: gl_def)

lemma render_mvp_uniform_no_assert: "render_mvp_uniform s \<noteq> Inl Assertion_failed"
  by (simp add: render_mvp_uniform_def stack_top_def Let_def split: list.split)

lemma render_draw_elements_no_assert: "render_draw_elements a s \<noteq> Inl Assertion_failed"
  by (simp add: render_draw_elements_def split: option.split)

lemma render_mvp_uniform_Cons:
  assumes "mvp_matrix_uniform_location s \<noteq> - 1"
    and "model_matrix_stack s = M # ms"
    and "view_matrix_stack s = V # vs"
    and "projection_matrix_stack s = P # ps"
  shows "render_mvp_uniform s =
    Inr (gl (GlUniformMatrix4fv (mvp_matrix_uniform_location s) 1 False (P * inverse V * M)) s)"
  using assms by (simp add: render_mvp_uniform_def stack_top_def)

lemma render_time_uniform_fields [simp]:
  "mvp_matrix_uniform_location (render_time_uniform E now s) = mvp_matrix_uniform_location s"
  "model_matrix_stack (render_time_uniform E now s) = model_matrix_stack s"
  "view_matrix_stack (render_time_uniform E now s) = view_matrix_stack s"
  "projection_matrix_stack (render_time_uniform E now s) = projection_matrix_stack s"
  "geometries (render_time_uniform E now s) = geometries s"
  by (simp_all add: render_time_uniform_def gl_def Let_def)

lemma gl_fields [simp]:
  "mvp_matrix_uniform_location (gl c s) = mvp_matrix_uniform_location s"
  "time_uniform_location (gl c s) = time_uniform_location s"
  "shader_program (gl c s) = shader_program s"
  "model_matrix_stack (gl c s) = model_matrix_stack s"
  "view_matrix_stack (gl c s) = view_matrix_stack s"
  "projection_matrix_stack (gl c s) = projection_matrix_stack s"
  "current_matrix_stack (gl c s) = current_matrix_stack s"
  "current_gpu_geometry (gl c s) = current_gpu_geometry s"
  "geometries (gl c s) = geometries s"
  by (simp_all add: gl_def)

lemma render_selected:
  assumes "mvp_matrix_uniform_location s \<noteq> - 1"
    and "current_gpu_geometry s = Some a"
    and "geometries s a = Some g"
    and "model_matrix_stack s = M # ms"
    and "view_matrix_stack s = V # vs"
    and "projection_matrix_stack s = P # ps"
  shows "render_current_es2_gpu_geometry E now s =
    Inr (gl (GlDrawElements (convert_geometry_type_to_es2_geometry_type (type g))
               (vertex_count g) GL_UNSIGNED_INT)
          (gl (GlUniformMatrix4fv (mvp_matrix_uniform_location s) 1 False (P * inverse V * M))
            (render_time_uniform E now (gl (GlUseProgram (shader_program s)) s))))"
proof -
  let ?s1 = "render_time_uniform E now (gl (GlUseProgram (shader_program s)) s)"
  have "render_mvp_uniform ?s1 =
    Inr (gl (GlUniformMatrix4fv (mvp_matrix_uniform_location s) 1 False (P * inverse V * M)) ?s1)"
    using render_mvp_uniform_Cons [of ?s1 M ms V vs P ps] assms by simp
  then show ?thesis
    using assms by (simp add: render_current_es2_gpu_geometry_def render_draw_elements_def)
qed

lemma destroy_es2_shader_program_eq:
  "destroy_es2_shader_program s =
     s\<lparr>shader_program := 0, position_attribute_location := - 1,
       color_attribute_location := - 1, time_uniform_location := - 1,
       gl_calls := gl_calls s @ [GlUseProgram 0, GlDeleteProgram (shader_program s)]\<rparr>"
  by (simp add: destroy_es2_shader_program_def gl_def)

lemma generate_es2_gpu_geometry_fst:
  "fst (generate_es2_gpu_geometry E ty vertices indices s) =
     \<lparr> type = ty, vertex_count = of_nat (length indices),
       vertex_array_object = device_vertex_array_name E (gl_calls s),
       vertex_buffer_object =
         device_buffer_name E
           (gl_calls s @ [GlGenVertexArrays (device_vertex_array_name E (gl_calls s)),
                          GlBindVertexArray (device_vertex_array_name E (gl_calls s))]),
       index_buffer_object =
         device_buffer_name E
           (gl_calls s @ [GlGenVertexArrays (device_vertex_array_name E (gl_calls s)),
                          GlBindVertexArray (device_vertex_array_name E (gl_calls s)),
                          GlGenBuffers (device_buffer_name E
                            (gl_calls s @ [GlGenVertexArrays (device_vertex_array_name E (gl_calls s)),
                                           GlBindVertexArray (device_vertex_array_name E (gl_calls s))])),
                          GlBindBuffer GL_ARRAY_BUFFER (device_buffer_name E
                            (gl_calls s @ [GlGenVertexArrays (device_vertex_array_name E (gl_calls s)),
                                           GlBindVertexArray (device_vertex_array_name E (gl_calls s))])),
                          GlBufferDataVertices GL_ARRAY_BUFFER (of_nat (length vertices) * 7 * 4)
                            vertices GL_STATIC_DRAW]) \<rparr>"
  by (simp add: generate_es2_gpu_geometry_def Let_def)

lemma destroy_es2_gpu_geometry_Some:
  "geometries s a = Some g \<Longrightarrow>
   destroy_es2_gpu_geometry a s =
     Inr (s\<lparr>geometries := (geometries s)
               (a \<mapsto> g\<lparr>vertex_array_object := 0, vertex_buffer_object := 0,
                        index_buffer_object := 0\<rparr>),
            gl_calls := gl_calls s @
              [GlBindVertexArray 0, GlDeleteVertexArrays (vertex_array_object g),
               GlBindBuffer GL_ARRAY_BUFFER 0, GlDeleteBuffers (vertex_buffer_object g),
               GlBindBuffer GL_ELEMENT_ARRAY_BUFFER 0, GlDeleteBuffers (index_buffer_object g)]\<rparr>)"
  by (simp add: destroy_es2_gpu_geometry_def gl_def)

lemma real_translate_x [simp]:
  "real_translate 1 (Vec3 1 0 0) = Mat4 (Vec4 1 0 0 0) (Vec4 0 1 0 0) (Vec4 0 0 1 0) (Vec4 1 0 0 1)"
  by (simp add: real_translate_def one_mat4_def mat4_identity_def)

lemma real_extern_fields:
  "glm_translate real_extern = real_translate"
  "glm_rotate real_extern = real_rotate"
  "glm_scale real_extern = real_scale"
  "glm_lookAt real_extern = real_lookAt"
  "glm_ortho real_extern = real_ortho"
  "glm_perspective real_extern = real_perspective"
  "float_of_int real_extern = real_of_int"
  "duration_cast_milliseconds real_extern = nanoseconds_to_milliseconds"
  "seconds_of_milliseconds real_extern = (\<lambda>ms. real_of_int ms / 1000)"
  by (simp_all add: real_extern_def)

lemma example_scene_fields:
  "shader_program example_scene = 5"
  "time_uniform_location example_scene = 2"
  "mvp_matrix_uniform_location example_scene = 3"
  "current_gpu_geometry example_scene = Some 0"
  "geometries example_scene 0 = Some example_geometry"
  "model_matrix_stack example_scene = [real_translate 1 (Vec3 1 0 0)]"
  "view_matrix_stack example_scene = [1]"
  "projection_matrix_stack example_scene = [1]"
  "current_matrix_stack example_scene = Model"
  "rendering_start_time example_scene = 0"
  "gl_calls example_scene = []"
  "window_width example_scene = 500"
  "window_height example_scene = 500"
  by (simp_all add: example_scene_def initial_state_def)

lemma example_geometry_fields:
  "type example_geometry = Triangles"
  "vertex_count example_geometry = 3"
  "vertex_array_object example_geometry = 1"
  "vertex_buffer_object example_geometry = 3"
  "index_buffer_object example_geometry = 6"
  by (simp_all add: example_geometry_def)


section \<open>The transform stacks\<close>

text \<open>
  Claim C1 (stack never empty). Whenever the three stacks are non-empty, every sequence
  of \<open>set_matrix_mode\<close>, \<open>push_matrix\<close> and \<open>pop_matrix\<close> calls runs without a fault,
  and after each of its calls (after every prefix of the sequence) the three stacks are
  non-empty; \<open>prepare_for_es2_rendering\<close> establishes this from any state, so it holds
  of every sequence run in a session; and \<open>pop_matrix\<close> on a current stack of exactly
  one matrix leaves that stack equal to \<open>[identity]\<close>.
\<close>

theorem stack_never_empty:
  "(stacks_not_empty s \<longrightarrow>
      (\<forall>n. \<exists>s'. run_ops (take n ops) s = Inr s' \<and> stacks_not_empty s'))
   \<and> (\<forall>n. \<exists>s'. run_ops (take n ops) (prepare_for_es2_rendering now s) = Inr s'
              \<and> stacks_not_empty s')
   \<and> (deref_stack (current_matrix_stack s) s = [m] \<longrightarrow>
        pop_matrix s = Inr (assign_stack (current_matrix_stack s) [1] s))"
proof (intro conjI impI allI)
  fix n
  assume "stacks_not_empty s"
  then show "\<exists>s'. run_ops (take n ops) s = Inr s' \<and> stacks_not_empty s'"
    by (rule run_ops_preserves)
next
  fix n
  have "stacks_not_empty (prepare_for_es2_rendering now s)"
    by (simp add: prepare_for_es2_rendering_eq stacks_not_empty_def)
  then show "\<exists>s'. run_ops (take n ops) (prepare_for_es2_rendering now s) = Inr s'
      \<and> stacks_not_empty s'"
    by (rule run_ops_preserves)
next
  assume "deref_stack (current_matrix_stack s) s = [m]"
  then show "pop_matrix s = Inr (assign_stack (current_matrix_stack s) [1] s)"
    by (simp add: pop_matrix_Cons)
qed

theorem stack_never_empty_witness:
  "stacks_not_empty (prepare_for_es2_rendering 0 (initial_state :: (real, real mat4) state))
   \<and> (\<forall>n. \<exists>s'. run_ops
                (take n [Push_matrix, Pop_matrix, Pop_matrix, Set_matrix_mode View, Pop_matrix])
                (prepare_for_es2_rendering 0 (initial_state :: (real, real mat4) state)) = Inr s'
              \<and> stacks_not_empty s')
   \<and> deref_stack Model (prepare_for_es2_rendering 0 (initial_state :: (real, real mat4) state)) = [1]
   \<and> pop_matrix (prepare_for_es2_rendering 0 (initial_state :: (real, real mat4) state))
       = Inr (prepare_for_es2_rendering 0 initial_state)"
proof -
  let ?s = "prepare_for_es2_rendering 0 (initial_state :: (real, real mat4) state)"
  note t = stack_never_empty [of ?s
      "[Push_matrix, Pop_matrix, Pop_matrix, Set_matrix_mode View, Pop_matrix]" 0 1]
  have h1: "stacks_not_empty ?s"
    by (simp add: prepare_for_es2_rendering_eq stacks_not_empty_def)
  have h2: "deref_stack (current_matrix_stack ?s) ?s = [1]"
    by (simp add: prepare_for_es2_rendering_eq initial_state_def)
  have c: "current_matrix_stack ?s = Model"
    by (simp add: prepare_for_es2_rendering_eq initial_state_def)
  from t h1 have r1: "\<forall>n. \<exists>s'. run_ops
        (take n [Push_matrix, Pop_matrix, Pop_matrix, Set_matrix_mode View, Pop_matrix]) ?s = Inr s'
      \<and> stacks_not_empty s'"
    by blast
  from t h2 have "pop_matrix ?s = Inr (assign_stack (current_matrix_stack ?s) [1] ?s)"
    by blast
  then have r2: "pop_matrix ?s = Inr ?s"
    by (simp add: prepare_for_es2_rendering_eq initial_state_def)
  from h2 have h2': "deref_stack Model ?s = [1]"
    by (simp only: c)
  from h1 r1 h2' r2 show ?thesis by blast
qed

text \<open>
  Before \<open>prepare_for_es2_rendering\<close> has run the stacks are as their declarations leave
  them, empty, and \<open>push_matrix\<close> and \<open>pop_matrix\<close> call \<open>top()\<close> and \<open>pop()\<close> on an empty
  \<open>std::stack\<close>.
\<close>

lemma stack_operations_before_session:
  "push_matrix (initial_state :: ('f, 'm) state) = Inl Undefined_behaviour"
  "pop_matrix (initial_state :: ('f, 'm :: one) state) = Inl Undefined_behaviour"
  by (simp_all add: push_matrix_def pop_matrix_def initial_state_def stack_top_def stack_pop_def)

text \<open>
  Claim C9 (push duplicates the top). On a non-empty current stack \<open>push_matrix\<close>
  returns, the stack is one matrix longer, its top is the top from before the push, and
  below the new top lies the stack from before the push.
\<close>

theorem push_duplicates_top:
  assumes "deref_stack (current_matrix_stack s) s \<noteq> []"
  shows "\<exists>s'. push_matrix s = Inr s'
           \<and> current_matrix_stack s' = current_matrix_stack s
           \<and> length (deref_stack (current_matrix_stack s') s')
               = Suc (length (deref_stack (current_matrix_stack s) s))
           \<and> stack_top (deref_stack (current_matrix_stack s') s')
               = stack_top (deref_stack (current_matrix_stack s) s)
           \<and> stack_pop (deref_stack (current_matrix_stack s') s')
               = Inr (deref_stack (current_matrix_stack s) s)"
proof -
  from assms obtain m st where c: "deref_stack (current_matrix_stack s) s = m # st"
    by (auto simp: neq_Nil_conv)
  show ?thesis
    by (simp add: push_matrix_Cons [OF c] c stack_top_def stack_pop_def)
qed

theorem push_duplicates_top_witness:
  "deref_stack View
     ((initial_state :: (real, real mat4) state)
        \<lparr>view_matrix_stack := [real_translate 1 (Vec3 1 2 3), 1], current_matrix_stack := View\<rparr>)
     \<noteq> []
   \<and> push_matrix
       ((initial_state :: (real, real mat4) state)
          \<lparr>view_matrix_stack := [real_translate 1 (Vec3 1 2 3), 1], current_matrix_stack := View\<rparr>)
     = Inr (initial_state
          \<lparr>view_matrix_stack := [real_translate 1 (Vec3 1 2 3), real_translate 1 (Vec3 1 2 3), 1],
            current_matrix_stack := View\<rparr>)"
  using push_duplicates_top [of "(initial_state :: (real, real mat4) state)
      \<lparr>view_matrix_stack := [real_translate 1 (Vec3 1 2 3), 1], current_matrix_stack := View\<rparr>"]
  by (simp add: initial_state_def push_matrix_def stack_top_def stack_push_def)

text \<open>
  Claim C4 (rotation composition order). On a current stack with top \<open>T\<close>,
  \<open>rotate_matrix\<close> with the angles \<open>(x, y, z)\<close> replaces the top by \<open>glm::rotate\<close>
  applied three times: about the Y axis by \<open>y\<close> first, then about the X axis by \<open>x\<close>,
  then about the Z axis by \<open>z\<close>. Given glm's contract that \<open>glm::rotate(m, a, v)\<close> is
  \<open>m\<close> times the rotation by \<open>a\<close> about \<open>v\<close>, the new top is
  \<open>T * Ry(y) * Rx(x) * Rz(z)\<close>, the product read from the left as C++ does.
\<close>

theorem rotation_order:
  fixes E :: "('f :: {zero, one}, 'm :: {one, times}) extern"
  assumes "deref_stack (current_matrix_stack s) s = T # st"
  shows "rotate_matrix E (Vec3 x y z) s =
      Inr (assign_stack (current_matrix_stack s)
             (glm_rotate E (glm_rotate E (glm_rotate E T y (Vec3 0 1 0)) x (Vec3 1 0 0))
                z (Vec3 0 0 1) # st) s)
    \<and> ((\<forall>m a v. glm_rotate E m a v = m * glm_rotate E 1 a v) \<longrightarrow>
        rotate_matrix E (Vec3 x y z) s =
          Inr (assign_stack (current_matrix_stack s)
                 (T * glm_rotate E 1 y (Vec3 0 1 0) * glm_rotate E 1 x (Vec3 1 0 0)
                    * glm_rotate E 1 z (Vec3 0 0 1) # st) s))"
proof -
  have a: "rotate_matrix E (Vec3 x y z) s =
      Inr (assign_stack (current_matrix_stack s)
             (glm_rotate E (glm_rotate E (glm_rotate E T y (Vec3 0 1 0)) x (Vec3 1 0 0))
                z (Vec3 0 0 1) # st) s)"
    using assms by (simp add: rotate_matrix_def stack_top_def stack_pop_def stack_push_def)
  have b: "glm_rotate E (glm_rotate E (glm_rotate E T y (Vec3 0 1 0)) x (Vec3 1 0 0))
                z (Vec3 0 0 1)
         = T * glm_rotate E 1 y (Vec3 0 1 0) * glm_rotate E 1 x (Vec3 1 0 0)
                    * glm_rotate E 1 z (Vec3 0 0 1)"
    if c: "\<forall>m a v. glm_rotate E m a v = m * glm_rotate E 1 a v"
  proof -
    have r1: "glm_rotate E T y (Vec3 0 1 0) = T * glm_rotate E 1 y (Vec3 0 1 0)"
      using c by blast
    have r2: "glm_rotate E (T * glm_rotate E 1 y (Vec3 0 1 0)) x (Vec3 1 0 0)
        = T * glm_rotate E 1 y (Vec3 0 1 0) * glm_rotate E 1 x (Vec3 1 0 0)"
      using c by blast
    have r3: "glm_rotate E (T * glm_rotate E 1 y (Vec3 0 1 0) * glm_rotate E 1 x (Vec3 1 0 0))
          z (Vec3 0 0 1)
        = T * glm_rotate E 1 y (Vec3 0 1 0) * glm_rotate E 1 x (Vec3 1 0 0)
            * glm_rotate E 1 z (Vec3 0 0 1)"
      using c by blast
    show ?thesis unfolding r1 r2 r3 by (rule refl)
  qed
  show ?thesis
  proof (intro conjI impI)
    show "rotate_matrix E (Vec3 x y z) s =
      Inr (assign_stack (current_matrix_stack s)
             (glm_rotate E (glm_rotate E (glm_rotate E T y (Vec3 0 1 0)) x (Vec3 1 0 0))
                z (Vec3 0 0 1) # st) s)"
      by (rule a)
  next
    assume c: "\<forall>m a v. glm_rotate E m a v = m * glm_rotate E 1 a v"
    from a show "rotate_matrix E (Vec3 x y z) s =
          Inr (assign_stack (current_matrix_stack s)
                 (T * glm_rotate E 1 y (Vec3 0 1 0) * glm_rotate E 1 x (Vec3 1 0 0)
                    * glm_rotate E 1 z (Vec3 0 0 1) # st) s)"
      unfolding b [OF c] .
  qed
qed

theorem rotation_order_witness:
  "deref_stack (current_matrix_stack example_scene) example_scene
     = [real_translate 1 (Vec3 1 0 0)]
   \<and> (\<forall>m a v. glm_rotate real_extern m a v = m * glm_rotate real_extern 1 a v)
   \<and> rotate_matrix real_extern (Vec3 (pi / 2) (pi / 2) 0) example_scene =
       Inr (example_scene
              \<lparr>model_matrix_stack :=
                 [real_translate 1 (Vec3 1 0 0) * real_rotate 1 (pi / 2) (Vec3 0 1 0)
                    * real_rotate 1 (pi / 2) (Vec3 1 0 0) * real_rotate 1 0 (Vec3 0 0 1)]\<rparr>)
   \<and> real_translate 1 (Vec3 1 0 0) * real_rotate 1 (pi / 2) (Vec3 0 1 0)
         * real_rotate 1 (pi / 2) (Vec3 1 0 0) * real_rotate 1 0 (Vec3 0 0 1)
       = Mat4 (Vec4 0 0 (- 1) 0) (Vec4 1 0 0 0) (Vec4 0 (- 1) 0 0) (Vec4 1 0 0 1)"
proof -
  have c: "\<forall>m a v. glm_rotate real_extern m a v = m * glm_rotate real_extern 1 a v"
    unfolding real_extern_fields by (intro allI) (rule real_rotate_contract)
  have d: "deref_stack (current_matrix_stack example_scene) example_scene
     = [real_translate 1 (Vec3 1 0 0)]"
    by (simp add: example_scene_def initial_state_def)
  have v: "real_translate 1 (Vec3 1 0 0) * real_rotate 1 (pi / 2) (Vec3 0 1 0)
         * real_rotate 1 (pi / 2) (Vec3 1 0 0) * real_rotate 1 0 (Vec3 0 0 1)
       = Mat4 (Vec4 0 0 (- 1) 0) (Vec4 1 0 0 0) (Vec4 0 (- 1) 0 0) (Vec4 1 0 0 1)"
    by (simp add: real_translate_def real_rotate_def rotation_part_def vec3_normalize_def
        combine3_def one_mat4_def mat4_identity_def times_mat4_def mat4_times_def
        mat4_apply_def)
  have "rotate_matrix real_extern (Vec3 (pi / 2) (pi / 2) 0) example_scene =
       Inr (example_scene
              \<lparr>model_matrix_stack :=
                 [real_translate 1 (Vec3 1 0 0) * real_rotate 1 (pi / 2) (Vec3 0 1 0)
                    * real_rotate 1 (pi / 2) (Vec3 1 0 0) * real_rotate 1 0 (Vec3 0 0 1)]\<rparr>)"
  proof -
    have "rotate_matrix real_extern (Vec3 (pi / 2) (pi / 2) 0) example_scene =
       Inr (assign_stack (current_matrix_stack example_scene)
              (real_translate 1 (Vec3 1 0 0) * glm_rotate real_extern 1 (pi / 2) (Vec3 0 1 0)
                 * glm_rotate real_extern 1 (pi / 2) (Vec3 1 0 0)
                 * glm_rotate real_extern 1 0 (Vec3 0 0 1) # []) example_scene)"
      by (rule rotation_order [OF d, of real_extern "pi / 2" "pi / 2" 0,
            THEN conjunct2, THEN mp, OF c])
    then show ?thesis
      by (simp add: example_scene_fields real_extern_def)
  qed
  then show ?thesis
    by (rule conjI [OF d conjI [OF c conjI [OF _ v]]])
qed

text \<open>
  Claim C8 (orthographic symmetry). On a non-empty current stack,
  \<open>load_orthographic_projection_matrix\<close> replaces the top by \<open>glm::ortho\<close> of
  \<open>left = -(zoom * A)\<close>, \<open>right = zoom * A\<close>, \<open>bottom = -zoom\<close> and \<open>top = zoom\<close>, where
  \<open>A\<close> is \<open>window_width\<close> converted to \<open>float\<close> divided by \<open>window_height\<close> converted to
  \<open>float\<close>. Where that quotient is \<open>1\<close> and \<open>zoom * 1 = zoom\<close>, as for \<open>zoom = 2\<close>, the
  bounds are \<open>-zoom\<close>, \<open>zoom\<close>, \<open>-zoom\<close>, \<open>zoom\<close>.
\<close>

theorem orthographic_symmetry:
  fixes E :: "('f :: {uminus, times, inverse, one}, 'm) extern"
  assumes "deref_stack (current_matrix_stack s) s = T # st"
  shows "load_orthographic_projection_matrix E zoom near_plane far_plane s =
      Inr (assign_stack (current_matrix_stack s)
             (glm_ortho E
                (- (zoom * (float_of_int E (sint (window_width s))
                              / float_of_int E (sint (window_height s)))))
                (zoom * (float_of_int E (sint (window_width s))
                           / float_of_int E (sint (window_height s))))
                (- zoom) zoom near_plane far_plane # st) s)
    \<and> (float_of_int E (sint (window_width s)) / float_of_int E (sint (window_height s)) = 1
          \<and> zoom * 1 = zoom \<longrightarrow>
        load_orthographic_projection_matrix E zoom near_plane far_plane s =
          Inr (assign_stack (current_matrix_stack s)
                 (glm_ortho E (- zoom) zoom (- zoom) zoom near_plane far_plane # st) s))"
  using load_matrix_Cons [OF assms]
  by (simp add: load_orthographic_projection_matrix_def Let_def)

text \<open>
  The witness is the call \<open>load_orthographic(zoom = 2, near = 0.1, far = 100)\<close> in two
  windows: the 500 by 500 window of the initialisers, of aspect ratio \<open>1\<close>, and a window
  800 wide and 600 high, where the horizontal bounds are \<open>-8/3\<close> and \<open>8/3\<close> (a window 600
  wide and 800 high would give \<open>-3/2\<close> and \<open>3/2\<close>).
\<close>

theorem orthographic_symmetry_witness:
  "deref_stack (current_matrix_stack (set_matrix_mode Projection example_scene))
     (set_matrix_mode Projection example_scene) = [1]
   \<and> float_of_int real_extern (sint (window_width (set_matrix_mode Projection example_scene)))
       / float_of_int real_extern (sint (window_height (set_matrix_mode Projection example_scene)))
       = 1
   \<and> (2 :: real) * 1 = 2
   \<and> load_orthographic_projection_matrix real_extern 2 (1 / 10) 100
       (set_matrix_mode Projection example_scene) =
       Inr (example_scene
              \<lparr>current_matrix_stack := Projection,
                projection_matrix_stack := [real_ortho (- 2) 2 (- 2) 2 (1 / 10) 100]\<rparr>)
   \<and> deref_stack
        (current_matrix_stack
           (set_matrix_mode Projection (example_scene\<lparr>window_width := 800, window_height := 600\<rparr>)))
        (set_matrix_mode Projection (example_scene\<lparr>window_width := 800, window_height := 600\<rparr>))
       = [1]
   \<and> load_orthographic_projection_matrix real_extern 2 (1 / 10) 100
       (set_matrix_mode Projection (example_scene\<lparr>window_width := 800, window_height := 600\<rparr>)) =
       Inr (example_scene
              \<lparr>window_width := 800, window_height := 600,
                current_matrix_stack := Projection,
                projection_matrix_stack := [real_ortho (- (8 / 3)) (8 / 3) (- 2) 2 (1 / 10) 100]\<rparr>)"
proof -
  let ?square = "set_matrix_mode Projection example_scene"
  let ?wide =
    "set_matrix_mode Projection (example_scene\<lparr>window_width := 800, window_height := 600\<rparr>)"
  have d1: "deref_stack (current_matrix_stack ?square) ?square = [1]"
    by (simp add: example_scene_fields)
  have d2: "deref_stack (current_matrix_stack ?wide) ?wide = [1]"
    by (simp add: example_scene_fields)
  have a1: "float_of_int real_extern (sint (window_width ?square))
      / float_of_int real_extern (sint (window_height ?square)) = 1"
    by (simp add: example_scene_fields real_extern_fields)
  have a2: "float_of_int real_extern (sint (window_width ?wide))
      / float_of_int real_extern (sint (window_height ?wide)) = 4 / 3"
    by (simp add: real_extern_fields)
  have z: "(2 :: real) * 1 = 2"
    by simp
  have "load_orthographic_projection_matrix real_extern 2 (1 / 10) 100 ?square =
      Inr (assign_stack (current_matrix_stack ?square)
             (glm_ortho real_extern (- 2) 2 (- 2) 2 (1 / 10) 100 # []) ?square)"
    by (rule orthographic_symmetry [OF d1, where E = real_extern and zoom = 2,
          THEN conjunct2, THEN mp, OF conjI [OF a1 z]])
  then have r1: "load_orthographic_projection_matrix real_extern 2 (1 / 10) 100 ?square =
       Inr (example_scene
              \<lparr>current_matrix_stack := Projection,
                projection_matrix_stack := [real_ortho (- 2) 2 (- 2) 2 (1 / 10) 100]\<rparr>)"
    by (simp add: real_extern_fields)
  have "load_orthographic_projection_matrix real_extern 2 (1 / 10) 100 ?wide =
      Inr (assign_stack (current_matrix_stack ?wide)
             (glm_ortho real_extern
                (- (2 * (float_of_int real_extern (sint (window_width ?wide))
                           / float_of_int real_extern (sint (window_height ?wide)))))
                (2 * (float_of_int real_extern (sint (window_width ?wide))
                        / float_of_int real_extern (sint (window_height ?wide))))
                (- 2) 2 (1 / 10) 100 # []) ?wide)"
    by (rule orthographic_symmetry [OF d2, where E = real_extern and zoom = 2,
          THEN conjunct1])
  then have r2: "load_orthographic_projection_matrix real_extern 2 (1 / 10) 100 ?wide =
       Inr (example_scene
              \<lparr>window_width := 800, window_height := 600,
                current_matrix_stack := Projection,
                projection_matrix_stack := [real_ortho (- (8 / 3)) (8 / 3) (- 2) 2 (1 / 10) 100]\<rparr>)"
    unfolding a2 by (simp add: real_extern_fields)
  show ?thesis
    by (rule conjI [OF d1 conjI [OF a1 conjI [OF z conjI [OF r1 conjI [OF d2 r2]]]]])
qed

section \<open>The geometry resources\<close>

text \<open>
  Claim C5 (geometry lifecycle). On a device that hands out non-zero names, as OpenGL
  specifies, the \<open>GPUGeometry\<close> that \<open>generate_es2_gpu_geometry\<close> returns has three
  non-zero handles; and \<open>destroy_es2_gpu_geometry\<close> applied to a \<open>GPUGeometry\<close> returns
  and leaves that object with its three handles equal to zero and its other fields as
  they were. Both functions run from their first statement to their last, so no caller
  sees an object with only some of its handles set or reset.
\<close>

theorem geometry_lifecycle:
  "((\<forall>calls. device_vertex_array_name E calls \<noteq> 0) \<and> (\<forall>calls. device_buffer_name E calls \<noteq> 0) \<longrightarrow>
      vertex_array_object (fst (generate_es2_gpu_geometry E ty vertices indices s)) \<noteq> 0
      \<and> vertex_buffer_object (fst (generate_es2_gpu_geometry E ty vertices indices s)) \<noteq> 0
      \<and> index_buffer_object (fst (generate_es2_gpu_geometry E ty vertices indices s)) \<noteq> 0)
   \<and> (geometries s a = Some g \<longrightarrow>
        (\<exists>s'. destroy_es2_gpu_geometry a s = Inr s'
           \<and> geometries s' a =
               Some (g\<lparr>vertex_array_object := 0, vertex_buffer_object := 0,
                       index_buffer_object := 0\<rparr>)))"
  by (simp add: generate_es2_gpu_geometry_fst destroy_es2_gpu_geometry_Some)

theorem geometry_lifecycle_witness:
  "(\<forall>calls. device_vertex_array_name real_extern calls \<noteq> 0)
   \<and> (\<forall>calls. device_buffer_name real_extern calls \<noteq> 0)
   \<and> fst (generate_es2_gpu_geometry real_extern Triangles [] [0, 1, 2] initial_state)
       = example_geometry
   \<and> vertex_array_object example_geometry \<noteq> 0
   \<and> vertex_buffer_object example_geometry \<noteq> 0
   \<and> index_buffer_object example_geometry \<noteq> 0
   \<and> geometries example_scene 0 = Some example_geometry
   \<and> (\<exists>s'. destroy_es2_gpu_geometry 0 example_scene = Inr s'
          \<and> geometries s' 0 =
              Some \<lparr> type = Triangles, vertex_count = 3, vertex_array_object = 0,
                     vertex_buffer_object = 0, index_buffer_object = 0 \<rparr>)"
proof -
  have n: "(\<forall>calls. device_vertex_array_name real_extern calls \<noteq> 0)
      \<and> (\<forall>calls. device_buffer_name real_extern calls \<noteq> 0)"
    by (simp add: real_extern_def counting_name_nonzero)
  have g: "fst (generate_es2_gpu_geometry real_extern Triangles [] [0, 1, 2] initial_state)
       = example_geometry"
    by (simp add: generate_es2_gpu_geometry_fst real_extern_def counting_name_def
        initial_state_def example_geometry_def)
  from geometry_lifecycle [where E = real_extern and ty = Triangles and vertices = "[]"
      and indices = "[0, 1, 2]" and s = "initial_state" and a = 0 and g = example_geometry] n
  have z: "vertex_array_object example_geometry \<noteq> 0
      \<and> vertex_buffer_object example_geometry \<noteq> 0
      \<and> index_buffer_object example_geometry \<noteq> 0"
    unfolding g by blast
  have e: "geometries example_scene 0 = Some example_geometry"
    by (simp add: example_scene_fields)
  from geometry_lifecycle [where E = real_extern and s = example_scene and a = 0
      and g = example_geometry] e
  have "\<exists>s'. destroy_es2_gpu_geometry 0 example_scene = Inr s'
          \<and> geometries s' 0 =
              Some (example_geometry\<lparr>vertex_array_object := 0, vertex_buffer_object := 0,
                      index_buffer_object := 0\<rparr>)"
    by blast
  then have d: "\<exists>s'. destroy_es2_gpu_geometry 0 example_scene = Inr s'
          \<and> geometries s' 0 =
              Some \<lparr> type = Triangles, vertex_count = 3, vertex_array_object = 0,
                     vertex_buffer_object = 0, index_buffer_object = 0 \<rparr>"
    by (simp add: example_geometry_def)
  from n g z e d show ?thesis by blast
qed

section \<open>The frame render controller\<close>

text \<open>
  Claim C3 (begin session), as amended. \<open>prepare_for_es2_rendering\<close> leaves each of the
  three stacks equal to \<open>[identity]\<close>, records the clock reading in
  \<open>rendering_start_time\<close>, and makes exactly three device calls: it sets the clear
  colour, sets the viewport to the window and enables the program point size. It makes
  no call about depth testing or face culling, which are enabled afterwards exactly
  when they were enabled before.
\<close>

theorem begin_session_resets:
  "prepare_for_es2_rendering now s =
     s\<lparr>model_matrix_stack := [1], view_matrix_stack := [1], projection_matrix_stack := [1],
       rendering_start_time := now,
       gl_calls := gl_calls s @
         [GlClearColor 0 0 0 0, GlViewport 0 0 (window_width s) (window_height s),
          GlEnable GL_PROGRAM_POINT_SIZE]\<rparr>
   \<and> gl_is_enabled GL_DEPTH_TEST (gl_calls (prepare_for_es2_rendering now s))
       = gl_is_enabled GL_DEPTH_TEST (gl_calls s)
   \<and> gl_is_enabled GL_CULL_FACE (gl_calls (prepare_for_es2_rendering now s))
       = gl_is_enabled GL_CULL_FACE (gl_calls s)"
  by (simp add: prepare_for_es2_rendering_eq gl_is_enabled_snoc3 gl_switch_def)

text \<open>
  The claim as stated, that \<open>prepare_for_es2_rendering\<close> sets depth testing and face
  culling to disabled, fails in a state reached by \<open>enable_depth_test\<close> and
  \<open>enable_face_culling\<close>: both are still enabled after it.
\<close>

theorem begin_session_disables_counterexample:
  "gl_is_enabled GL_DEPTH_TEST
     (gl_calls (prepare_for_es2_rendering 0
        (enable_face_culling (enable_depth_test (initial_state :: (real, real mat4) state)))))
   \<and> gl_is_enabled GL_CULL_FACE
     (gl_calls (prepare_for_es2_rendering 0
        (enable_face_culling (enable_depth_test (initial_state :: (real, real mat4) state)))))"
  by (simp add: prepare_for_es2_rendering_eq enable_face_culling_def enable_depth_test_def
      initial_state_def gl_def gl_is_enabled_def gl_switch_def)

text \<open>
  Claim C7 (begin frame). \<open>prepare_to_render_es2_frame\<close> makes one device call, the
  clear of the colour and the depth buffer, and changes nothing else: the three stacks,
  the current stack and the current geometry are as before.
\<close>

theorem begin_frame_only_clears:
  "prepare_to_render_es2_frame s
     = s\<lparr>gl_calls := gl_calls s @ [GlClear [GL_COLOR_BUFFER_BIT, GL_DEPTH_BUFFER_BIT]]\<rparr>
   \<and> model_matrix_stack (prepare_to_render_es2_frame s) = model_matrix_stack s
   \<and> view_matrix_stack (prepare_to_render_es2_frame s) = view_matrix_stack s
   \<and> projection_matrix_stack (prepare_to_render_es2_frame s) = projection_matrix_stack s
   \<and> current_matrix_stack (prepare_to_render_es2_frame s) = current_matrix_stack s
   \<and> current_gpu_geometry (prepare_to_render_es2_frame s) = current_gpu_geometry s"
  by (simp add: prepare_to_render_es2_frame_def gl_def)

text \<open>
  Claim C6 (drawing without a geometry). With \<open>current_gpu_geometry\<close> null,
  \<open>render_current_es2_gpu_geometry\<close> stops at its assertion, before any device call;
  with a geometry selected the assertion does not fire.
\<close>

theorem draw_without_geometry_asserts:
  "(current_gpu_geometry s = None \<longrightarrow>
      render_current_es2_gpu_geometry E now s = Inl Assertion_failed)
   \<and> (current_gpu_geometry s \<noteq> None \<longrightarrow>
      render_current_es2_gpu_geometry E now s \<noteq> Inl Assertion_failed)"
  by (auto simp: render_current_es2_gpu_geometry_def Let_def render_mvp_uniform_no_assert
      render_draw_elements_no_assert split: sum.splits)

theorem draw_without_geometry_asserts_witness:
  "current_gpu_geometry (initial_state :: (real, real mat4) state) = None
   \<and> render_current_es2_gpu_geometry real_extern 7 initial_state = Inl Assertion_failed
   \<and> current_gpu_geometry example_scene \<noteq> None
   \<and> render_current_es2_gpu_geometry real_extern 7 example_scene \<noteq> Inl Assertion_failed"
  using draw_without_geometry_asserts [of "initial_state :: (real, real mat4) state" real_extern 7]
    draw_without_geometry_asserts [of example_scene real_extern 7]
  by (simp add: example_scene_def initial_state_def)

text \<open>
  Claim C2 (MVP composition). With a matrix uniform location other than \<open>-1\<close> and a
  geometry selected, \<open>render_current_es2_gpu_geometry\<close> uploads
  \<open>Projection.top() * inverse(View.top()) * Model.top()\<close> to that location, between
  the time uniform and the draw call. Where the tops of the view and the projection
  stack are the identity, and the identity is its own inverse and a left unit of the
  model matrix, the matrix uploaded is the top of the model stack.
\<close>

theorem mvp_composition:
  fixes E :: "('f :: inverse, 'm :: {one, times, inverse}) extern"
  assumes "mvp_matrix_uniform_location s \<noteq> - 1"
    and "current_gpu_geometry s = Some a"
    and "geometries s a = Some g"
    and "model_matrix_stack s = M # ms"
    and "view_matrix_stack s = V # vs"
    and "projection_matrix_stack s = P # ps"
  shows "render_current_es2_gpu_geometry E now s =
      Inr (gl (GlDrawElements (convert_geometry_type_to_es2_geometry_type (type g))
                 (vertex_count g) GL_UNSIGNED_INT)
            (gl (GlUniformMatrix4fv (mvp_matrix_uniform_location s) 1 False (P * inverse V * M))
              (render_time_uniform E now (gl (GlUseProgram (shader_program s)) s))))
    \<and> (V = 1 \<and> P = 1 \<and> inverse (1 :: 'm) = 1 \<and> (1 :: 'm) * 1 = 1 \<and> 1 * M = M \<longrightarrow>
        render_current_es2_gpu_geometry E now s =
          Inr (gl (GlDrawElements (convert_geometry_type_to_es2_geometry_type (type g))
                     (vertex_count g) GL_UNSIGNED_INT)
                (gl (GlUniformMatrix4fv (mvp_matrix_uniform_location s) 1 False M)
                  (render_time_uniform E now (gl (GlUseProgram (shader_program s)) s)))))"
  using render_selected [OF assms, of E now] by auto

theorem mvp_composition_witness:
  "mvp_matrix_uniform_location example_scene \<noteq> - 1
   \<and> current_gpu_geometry example_scene = Some 0
   \<and> geometries example_scene 0 = Some example_geometry
   \<and> model_matrix_stack example_scene = [real_translate 1 (Vec3 1 0 0)]
   \<and> view_matrix_stack example_scene = [1]
   \<and> projection_matrix_stack example_scene = [1]
   \<and> inverse (1 :: real mat4) = 1
   \<and> (1 :: real mat4) * 1 = 1
   \<and> 1 * real_translate 1 (Vec3 1 0 0) = real_translate 1 (Vec3 1 0 0)
   \<and> render_current_es2_gpu_geometry real_extern 7500000 example_scene =
       Inr (example_scene
              \<lparr>gl_calls :=
                 [GlUseProgram 5, GlUniform1f 2 (7 / 1000),
                  GlUniformMatrix4fv 3 1 False
                    (Mat4 (Vec4 1 0 0 0) (Vec4 0 1 0 0) (Vec4 0 0 1 0) (Vec4 1 0 0 1)),
                  GlDrawElements GL_TRIANGLES 3 GL_UNSIGNED_INT]\<rparr>)"
  using mvp_composition [where s = example_scene and a = 0 and g = example_geometry
      and M = "real_translate 1 (Vec3 1 0 0)" and ms = "[]" and V = 1 and vs = "[]"
      and P = 1 and ps = "[]" and E = real_extern and now = 7500000]
  by (simp add: example_scene_def example_geometry_def initial_state_def real_extern_def
      render_time_uniform_def nanoseconds_to_milliseconds_def gl_def mat4_one_times
      mat4_inverse_one)

text \<open>
  Claim C10 (shader destruction keeps the matrix uniform location).
  \<open>destroy_es2_shader_program\<close> sets \<open>shader_program\<close> to \<open>0\<close> and the position, colour
  and time locations to \<open>-1\<close>, and leaves \<open>mvp_matrix_uniform_location\<close> as it was. So
  where that location was not \<open>-1\<close>, a draw after the destruction still uploads the
  composed matrix to it, with program \<open>0\<close> in use, and writes no time uniform.
\<close>

theorem destroy_shader_keeps_mvp_location:
  fixes E :: "('f :: inverse, 'm :: {times, inverse}) extern"
  shows "destroy_es2_shader_program s =
       s\<lparr>shader_program := 0, position_attribute_location := - 1,
         color_attribute_location := - 1, time_uniform_location := - 1,
         gl_calls := gl_calls s @ [GlUseProgram 0, GlDeleteProgram (shader_program s)]\<rparr>
   \<and> mvp_matrix_uniform_location (destroy_es2_shader_program s) = mvp_matrix_uniform_location s
   \<and> (mvp_matrix_uniform_location s \<noteq> - 1 \<and> current_gpu_geometry s = Some a
        \<and> geometries s a = Some g \<and> model_matrix_stack s = M # ms
        \<and> view_matrix_stack s = V # vs \<and> projection_matrix_stack s = P # ps \<longrightarrow>
        (\<exists>s'. render_current_es2_gpu_geometry E now (destroy_es2_shader_program s) = Inr s'
           \<and> gl_calls s' = gl_calls s @
               [GlUseProgram 0, GlDeleteProgram (shader_program s), GlUseProgram 0,
                GlUniformMatrix4fv (mvp_matrix_uniform_location s) 1 False (P * inverse V * M),
                GlDrawElements (convert_geometry_type_to_es2_geometry_type (type g))
                  (vertex_count g) GL_UNSIGNED_INT]))"
proof -
  let ?d = "destroy_es2_shader_program s"
  have d: "?d = s\<lparr>shader_program := 0, position_attribute_location := - 1,
         color_attribute_location := - 1, time_uniform_location := - 1,
         gl_calls := gl_calls s @ [GlUseProgram 0, GlDeleteProgram (shader_program s)]\<rparr>"
    by (rule destroy_es2_shader_program_eq)
  have r: "\<exists>s'. render_current_es2_gpu_geometry E now ?d = Inr s'
           \<and> gl_calls s' = gl_calls s @
               [GlUseProgram 0, GlDeleteProgram (shader_program s), GlUseProgram 0,
                GlUniformMatrix4fv (mvp_matrix_uniform_location s) 1 False (P * inverse V * M),
                GlDrawElements (convert_geometry_type_to_es2_geometry_type (type g))
                  (vertex_count g) GL_UNSIGNED_INT]"
    if h: "mvp_matrix_uniform_location s \<noteq> - 1" "current_gpu_geometry s = Some a"
      "geometries s a = Some g" "model_matrix_stack s = M # ms"
      "view_matrix_stack s = V # vs" "projection_matrix_stack s = P # ps"
  proof -
    have "render_current_es2_gpu_geometry E now ?d =
      Inr (gl (GlDrawElements (convert_geometry_type_to_es2_geometry_type (type g))
               (vertex_count g) GL_UNSIGNED_INT)
          (gl (GlUniformMatrix4fv (mvp_matrix_uniform_location ?d) 1 False (P * inverse V * M))
            (render_time_uniform E now (gl (GlUseProgram (shader_program ?d)) ?d))))"
      using h by (intro render_selected) (simp_all add: d)
    then show ?thesis
      by (simp add: d render_time_uniform_def)
  qed
  show ?thesis
    using r by (simp add: d)
qed

theorem destroy_shader_keeps_mvp_location_witness:
  "mvp_matrix_uniform_location example_scene \<noteq> - 1
   \<and> current_gpu_geometry example_scene = Some 0
   \<and> geometries example_scene 0 = Some example_geometry
   \<and> model_matrix_stack example_scene = [real_translate 1 (Vec3 1 0 0)]
   \<and> view_matrix_stack example_scene = [1]
   \<and> projection_matrix_stack example_scene = [1]
   \<and> mvp_matrix_uniform_location (destroy_es2_shader_program example_scene) = 3
   \<and> (\<exists>s'. render_current_es2_gpu_geometry real_extern 7
               (destroy_es2_shader_program example_scene) = Inr s'
          \<and> gl_calls s' =
              [GlUseProgram 0, GlDeleteProgram 5, GlUseProgram 0,
               GlUniformMatrix4fv 3 1 False
                 (Mat4 (Vec4 1 0 0 0) (Vec4 0 1 0 0) (Vec4 0 0 1 0) (Vec4 1 0 0 1)),
               GlDrawElements GL_TRIANGLES 3 GL_UNSIGNED_INT])"
proof -
  have h: "mvp_matrix_uniform_location example_scene \<noteq> - 1
     \<and> current_gpu_geometry example_scene = Some 0
     \<and> geometries example_scene 0 = Some example_geometry
     \<and> model_matrix_stack example_scene = [real_translate 1 (Vec3 1 0 0)]
     \<and> view_matrix_stack example_scene = [1]
     \<and> projection_matrix_stack example_scene = [1]"
    by (simp add: example_scene_fields)
  note t = destroy_shader_keeps_mvp_location [where s = example_scene and a = 0
      and g = example_geometry and M = "real_translate 1 (Vec3 1 0 0)" and ms = "[]"
      and V = 1 and vs = "[]" and P = 1 and ps = "[]" and E = real_extern and now = 7]
  from t have "mvp_matrix_uniform_location (destroy_es2_shader_program example_scene)
      = mvp_matrix_uniform_location example_scene"
    by blast
  then have m: "mvp_matrix_uniform_location (destroy_es2_shader_program example_scene) = 3"
    by (simp add: example_scene_fields)
  from t h have "\<exists>s'. render_current_es2_gpu_geometry real_extern 7
               (destroy_es2_shader_program example_scene) = Inr s'
          \<and> gl_calls s' = gl_calls example_scene @
               [GlUseProgram 0, GlDeleteProgram (shader_program example_scene), GlUseProgram 0,
                GlUniformMatrix4fv (mvp_matrix_uniform_location example_scene) 1 False
                  (1 * inverse 1 * real_translate 1 (Vec3 1 0 0)),
                GlDrawElements (convert_geometry_type_to_es2_geometry_type (type example_geometry))
                  (vertex_count example_geometry) GL_UNSIGNED_INT]"
    by blast
  then have r: "\<exists>s'. render_current_es2_gpu_geometry real_extern 7
               (destroy_es2_shader_program example_scene) = Inr s'
          \<and> gl_calls s' =
              [GlUseProgram 0, GlDeleteProgram 5, GlUseProgram 0,
               GlUniformMatrix4fv 3 1 False
                 (Mat4 (Vec4 1 0 0 0) (Vec4 0 1 0 0) (Vec4 0 0 1 0) (Vec4 1 0 0 1)),
               GlDrawElements GL_TRIANGLES 3 GL_UNSIGNED_INT]"
    by (simp add: example_scene_fields example_geometry_fields mat4_one_times mat4_inverse_one)
  from h m r show ?thesis by blast
qed

end
